theory Spec2Isabelle
  imports Complex_Main "HOL-Library.Word"
begin

unbundle bit_operations_syntax

section \<open>JavaScript numbers\<close>

text \<open>
  A JavaScript \<^verbatim>\<open>Number\<close> is an IEEE-754 binary64 value. Every finite double is a
  rational, so a finite Number is modelled as a \<^typ>\<open>rat\<close>, and every arithmetic
  operation is the exact rational operation followed by \<open>fl\<close>, rounding to the nearest
  double with ties to even (53-bit significand, gradual underflow below \<open>2^-1022\<close>).
  The non-finite values (\<^verbatim>\<open>Infinity\<close>, \<^verbatim>\<open>NaN\<close>) have no counterpart: a
  result of magnitude \<open>2^1024\<close> or more is outside the model, and the places where the
  source divides by zero return an explicit error instead.
\<close>

fun bitlen :: "nat \<Rightarrow> nat" where
  "bitlen n = (if n = 0 then 0 else Suc (bitlen (n div 2)))"

declare bitlen.simps [simp del]

definition expo :: "rat \<Rightarrow> int" where
  \<comment> \<open>the binary exponent of a positive rational: \<open>2^e \<le> q < 2^(e+1)\<close>\<close>
  "expo q = (if 1 \<le> q then int (bitlen (nat \<lfloor>q\<rfloor>)) - 1
             else - int (bitlen (nat (\<lceil>1 / q\<rceil> - 1))))"

definition round_half_even :: "rat \<Rightarrow> int" where
  "round_half_even x =
     (let f = \<lfloor>x\<rfloor>; d = x - of_int f
      in if d < 1 / 2 then f
         else if 1 / 2 < d then f + 1
         else if even f then f else f + 1)"

definition pow2 :: "int \<Rightarrow> rat" where
  "pow2 e = (if 0 \<le> e then 2 ^ nat e else 1 / 2 ^ nat (- e))"

definition fl :: "rat \<Rightarrow> rat" where
  "fl q = (if q = 0 then 0
           else let u = pow2 (max (expo \<bar>q\<bar>) (- 1022) - 52)
                in of_int (round_half_even (q / u)) * u)"

definition js_mul :: "rat \<Rightarrow> rat \<Rightarrow> rat" where
  "js_mul x y = fl (x * y)"

definition js_div :: "rat \<Rightarrow> rat \<Rightarrow> rat" where
  \<comment> \<open>only called with a non-zero divisor\<close>
  "js_div x y = fl (x / y)"

definition js_sub :: "rat \<Rightarrow> rat \<Rightarrow> rat" where
  "js_sub x y = fl (x - y)"

definition Math_floor :: "rat \<Rightarrow> int" where
  "Math_floor x = \<lfloor>x\<rfloor>"

section \<open>Mines payout calculator (services/minesPayout.js)\<close>

text \<open>
  \<^verbatim>\<open>combination(n, k)\<close> runs \<^verbatim>\<open>for (let i = 1; i <= k; i++) result = (result * (n - (k - i))) / i\<close>
  on Numbers: a rounded multiplication followed by a rounded division. The callers pass
  integers for \<open>n\<close> and \<open>k\<close>.
\<close>

function combination_loop :: "int \<Rightarrow> int \<Rightarrow> int \<Rightarrow> rat \<Rightarrow> rat" where
  "combination_loop n k i result =
     (if i \<le> k
      then combination_loop n k (i + 1)
             (js_div (js_mul result (of_int (n - (k - i)))) (of_int i))
      else result)"
  by pat_completeness auto
termination
  by (relation "measure (\<lambda>(n, k, i, result). nat (k + 1 - i))") auto

declare combination_loop.simps [simp del]

definition combination :: "int \<Rightarrow> int \<Rightarrow> rat" where
  "combination n k =
     (if k < 0 \<or> k > n then 0
      else if k = 0 \<or> k = n then 1
      else combination_loop n (min k (n - k)) 1 1)"

record payout_input =
  in_mines :: int
  in_revealedGems :: int
  in_betAmount :: int

record payout_result =
  res_payoutAmount :: int
  res_multiplier :: rat
  res_trueMultiplier :: rat
  res_houseEdge :: rat

datatype calc_error = NonFiniteMultiplier

text \<open>
  \<open>HOUSE_EDGE\<close> is read from the environment when the module loads (default 0.025), so it
  is a parameter. \<open>revealedGems\<close> is a count, hence an integer, and the test
  \<^verbatim>\<open>Number.isInteger\<close> holds. When \<open>safeComb\<close> is zero the source divides by zero and
  the multiplier is \<^verbatim>\<open>Infinity\<close> or \<^verbatim>\<open>NaN\<close>: the model returns
  \<open>NonFiniteMultiplier\<close> there.
\<close>

definition calculateMinesPayout :: "rat \<Rightarrow> payout_input \<Rightarrow> calc_error + payout_result" where
  "calculateMinesPayout HOUSE_EDGE inp =
     (let totalSlots = 25;
          safeSlots = totalSlots - in_mines inp
      in if in_revealedGems inp < 1
         then Inr \<lparr>res_payoutAmount = 0, res_multiplier = 0, res_trueMultiplier = 0, res_houseEdge = HOUSE_EDGE\<rparr>
         else
           let totalComb = combination totalSlots (in_revealedGems inp);
               safeComb = combination safeSlots (in_revealedGems inp)
           in if safeComb = 0 then Inl NonFiniteMultiplier
              else
                let trueM = js_div totalComb safeComb;
                    m = js_mul trueM (js_sub 1 HOUSE_EDGE)
                in Inr \<lparr>res_payoutAmount = Math_floor (js_mul (of_int (in_betAmount inp)) m),
                        res_multiplier = m,
                        res_trueMultiplier = trueM,
                        res_houseEdge = HOUSE_EDGE\<rparr>)"

section \<open>Crash point derivation (sockets/crash.js)\<close>

text \<open>
  \<^verbatim>\<open>crypto.createHmac("sha256", key).update(msg).digest("hex")\<close> belongs to the Node
  runtime, not to the repository: it is a parameter \<open>hmac key msg\<close> returning the
  hexadecimal digest. \<^verbatim>\<open>BigInt("0x" + s)\<close> throws a \<^verbatim>\<open>SyntaxError\<close> on a string
  that is not a hexadecimal numeral.
\<close>

definition hexDigit :: "char \<Rightarrow> nat option" where
  "hexDigit c =
     (let n = (of_char c :: nat)
      in if 48 \<le> n \<and> n \<le> 57 then Some (n - 48)
         else if 97 \<le> n \<and> n \<le> 102 then Some (n - 87)
         else if 65 \<le> n \<and> n \<le> 70 then Some (n - 55)
         else None)"

fun parseHex :: "nat \<Rightarrow> string \<Rightarrow> nat option" where
  "parseHex acc [] = Some acc"
| "parseHex acc (c # cs) =
     (case hexDigit c of None \<Rightarrow> None | Some d \<Rightarrow> parseHex (16 * acc + d) cs)"

definition BigInt_hex :: "string \<Rightarrow> nat option" where
  "BigInt_hex s = (if s = [] then None else parseHex 0 s)"

datatype crash_error = SyntaxError | RangeError

definition bigint_div :: "int \<Rightarrow> int \<Rightarrow> crash_error + int" where
  \<comment> \<open>BigInt division truncates towards zero and throws on a zero divisor\<close>
  "bigint_div a b =
     (if b = 0 then Inl RangeError else Inr (sgn a * sgn b * (\<bar>a\<bar> div \<bar>b\<bar>)))"

definition crash100FromDigest :: "string \<Rightarrow> crash_error + int" where
  \<comment> \<open>lines 26 to 35: the integer \<open>crash100\<close> after the clamp\<close>
  "crash100FromDigest h =
     (case BigInt_hex (take 13 h) of
        None \<Rightarrow> Inl SyntaxError
      | Some r \<Rightarrow>
          let E = (2 :: int) ^ 52
          in case bigint_div (100 * E - int r) (E - int r) of
               Inl e \<Rightarrow> Inl e
             | Inr crash100 \<Rightarrow>
                 let MAX100 = 100000
                 in Inr (if crash100 > MAX100 then MAX100 else crash100))"

definition crashPointOfCrash100 :: "int \<Rightarrow> rat" where
  \<comment> \<open>lines 37 to 39; \<^verbatim>\<open>Number.isFinite\<close> holds of every value of the model\<close>
  "crashPointOfCrash100 crash100 =
     (let crash = js_div (fl (of_int crash100)) 100;
          crash = (if crash < 1 then 1 else crash)
      in js_div (of_int (Math_floor (js_mul crash 100))) 100)"

definition crashPointFromDigest :: "string \<Rightarrow> crash_error + rat" where
  "crashPointFromDigest h =
     (case crash100FromDigest h of
        Inl e \<Rightarrow> Inl e
      | Inr crash100 \<Rightarrow> Inr (crashPointOfCrash100 crash100))"

definition crashPointFromSeeds ::
  "(string \<Rightarrow> string \<Rightarrow> string) \<Rightarrow> string \<Rightarrow> string \<Rightarrow> crash_error + rat" where
  "crashPointFromSeeds hmac publicSeed privateSeed =
     crashPointFromDigest (hmac privateSeed publicSeed)"



section \<open>Mines layout (routes/mine.js)\<close>

text \<open>
  The mine positions come from \<^verbatim>\<open>Math.floor(Math.random() * 25)\<close>. The random source is
  an input of the model: \<open>draws\<close> is the sequence of values this expression takes, each an
  index below 25. The loop \<^verbatim>\<open>while (minePositions.length < mines)\<close> consumes one draw
  per iteration; \<open>None\<close> means that the loop is still running when the draws are used up.
\<close>

datatype tile = BOMB | GEM

record cell =
  c_point :: nat
  c_mine :: "tile option"
  c_mined :: bool

fun placeMines :: "int \<Rightarrow> nat list \<Rightarrow> nat list \<Rightarrow> nat list option" where
  "placeMines mines [] minePositions =
     (if int (length minePositions) < mines then None else Some minePositions)"
| "placeMines mines (pos # draws) minePositions =
     (if int (length minePositions) < mines
      then placeMines mines draws
             (if pos \<in> set minePositions then minePositions else minePositions @ [pos])
      else Some minePositions)"

definition initialDatas :: "cell list" where
  "initialDatas = map (\<lambda>i. \<lparr>c_point = i, c_mine = None, c_mined = False\<rparr>) [0..<25]"

definition assignMines :: "nat list \<Rightarrow> cell list \<Rightarrow> cell list" where
  "assignMines minePositions datas =
     map (\<lambda>(index, item). item\<lparr>c_mine := Some (if index \<in> set minePositions then BOMB else GEM)\<rparr>)
       (enumerate 0 datas)"

definition buildInitialDatas :: "int \<Rightarrow> nat list \<Rightarrow> int \<Rightarrow> (cell list \<times> int) option" where
  "buildInitialDatas mines draws now =
     (case placeMines mines draws [] of
        None \<Rightarrow> None
      | Some minePositions \<Rightarrow>
          Some (assignMines minePositions initialDatas, now + 5 * 60 * 1000))"

record mine_gameData =
  gd_publicKey :: string
  gd_status :: string
  gd_mines :: int
  gd_amount :: int
  gd_datas :: "cell list"
  gd_txId :: "string option"
  gd_expiresAt :: int
  gd_publicSeed :: string
  gd_privateSeed :: string
  gd_privateSeedHash :: string

text \<open>
  \<^verbatim>\<open>router.post('/create')\<close>, lines 375 to 414, after the request has been validated
  (\<open>mines\<close> an integer from 1 to 24, \<open>amount\<close> a positive integer). The mines are
  placed first; the two seeds are the next outputs of \<^verbatim>\<open>crypto.randomBytes\<close> and are
  inputs here, as is the hash function \<open>sha256Hex\<close>.
\<close>

definition createGameData ::
  "(string \<Rightarrow> string) \<Rightarrow> int \<Rightarrow> nat list \<Rightarrow> string \<Rightarrow> string \<Rightarrow>
   string \<Rightarrow> int \<Rightarrow> int \<Rightarrow> string option \<Rightarrow> mine_gameData option" where
  "createGameData sha256Hex now draws publicSeed privateSeed publicIdNormalized mines amountInt txId =
     (let datas = initialDatas
      in case placeMines mines draws [] of
           None \<Rightarrow> None
         | Some minePositions \<Rightarrow>
             Some \<lparr>gd_publicKey = publicIdNormalized,
                   gd_status = ''LIVE'',
                   gd_mines = mines,
                   gd_amount = amountInt,
                   gd_datas = assignMines minePositions datas,
                   gd_txId = txId,
                   gd_expiresAt = now + 5 * 60 * 1000,
                   gd_publicSeed = publicSeed,
                   gd_privateSeed = privateSeed,
                   gd_privateSeedHash = sha256Hex privateSeed\<rparr>)"

definition bombPoints :: "cell list \<Rightarrow> nat list" where
  "bombPoints datas = map c_point (filter (\<lambda>d. c_mine d = Some BOMB) datas)"

section \<open>External transfer (services/qubicPayout.js)\<close>

text \<open>
  \<^verbatim>\<open>payFromCasinoToUser({ toPublicId, amount })\<close> either returns
  \<^verbatim>\<open>{ txId, targetTick, ... }\<close> or throws an \<^verbatim>\<open>Error\<close>; a thrown error is
  modelled by its message (\<open>Inl\<close>). The environment, the signing library and the RPC node
  are the \<open>casino\<close>: a configuration error raised before the amount is looked at, and the
  outcome of signing and broadcasting. The two checks of the source itself are kept: the
  amount must be a positive integer and the RPC answer must carry a non-empty transaction
  id.
\<close>

record payout_tx =
  tx_txId :: string
  tx_targetTick :: int

record casino =
  casino_config_error :: "string option"
  casino_broadcast :: "string \<Rightarrow> int \<Rightarrow> string + payout_tx"

definition payFromCasinoToUser :: "casino \<Rightarrow> string \<Rightarrow> int \<Rightarrow> string + payout_tx" where
  "payFromCasinoToUser C toPublicId amount =
     (case casino_config_error C of
        Some e \<Rightarrow> Inl e
      | None \<Rightarrow>
          if amount \<le> 0 then Inl ''amount must be positive integer''
          else case casino_broadcast C toPublicId amount of
                 Inl e \<Rightarrow> Inl e
               | Inr tx \<Rightarrow> if tx_txId tx = [] then Inl ''RPC did not return txId'' else Inr tx)"

definition errorText :: "string \<Rightarrow> string" where
  \<comment> \<open>\<^verbatim>\<open>String(e?.message || e)\<close> for an \<^verbatim>\<open>Error\<close> with the given message\<close>
  "errorText msg = (if msg = [] then ''Error'' else msg)"

section \<open>Mines session store (models/Game.js, table mine\_sessions)\<close>

text \<open>
  The store keeps the layout as two 32-bit masks and rebuilds the 25 cells on every read.
  Rows are kept most recent first, so that \<^verbatim>\<open>ORDER BY created_at DESC LIMIT 1\<close> is the
  first matching row. Database failures are not modelled: every query succeeds. The
  columns for the seeds, the bet transaction id and the timestamps other than the expiry
  play no part in the handlers below and are left out.
\<close>

definition MINE_CELL_COUNT :: nat where
  "MINE_CELL_COUNT = 25"

definition maskHas :: "32 word \<Rightarrow> nat \<Rightarrow> bool" where
  "maskHas maskValue index = (drop_bit index maskValue AND 1 = 1)"

definition buildMasksFromDatas :: "cell list \<Rightarrow> 32 word \<times> 32 word" where
  "buildMasksFromDatas datas =
     fold (\<lambda>item (minesMask, revealedMask).
             let idx = c_point item
             in if idx \<ge> MINE_CELL_COUNT then (minesMask, revealedMask)
                else ((if c_mine item = Some BOMB then minesMask OR push_bit idx 1 else minesMask),
                      (if c_mined item then revealedMask OR push_bit idx 1 else revealedMask)))
          datas (0, 0)"

definition buildDatasFromMasks :: "32 word \<Rightarrow> 32 word \<Rightarrow> cell list" where
  "buildDatasFromMasks minesMask revealedMask =
     map (\<lambda>i. \<lparr>c_point = i,
                c_mine = Some (if maskHas minesMask i then BOMB else GEM),
                c_mined = maskHas revealedMask i\<rparr>)
       [0..<MINE_CELL_COUNT]"

record mine_session =
  ms_id :: int
  ms_wallet_public_key :: string
  ms_status :: string
  ms_mines_count :: int
  ms_bet_amount :: int
  ms_mines_mask :: "32 word"
  ms_revealed_mask :: "32 word"
  ms_payout_amount :: "int option"
  ms_payout_tx_id :: "string option"
  ms_payout_status :: string
  ms_payout_error :: "string option"
  ms_expires_at :: "int option"

record mine_game =
  g_id :: int
  g_publicKey :: string
  g_status :: string
  g_mines :: int
  g_amount :: int
  g_datas :: "cell list"
  g_expiresAt :: "int option"
  g_payoutAmount :: "int option"
  g_payoutTxId :: "string option"
  g_payoutStatus :: string
  g_payoutError :: "string option"

definition toGame :: "mine_session \<Rightarrow> mine_game" where
  \<comment> \<open>the object built by \<^verbatim>\<open>findOne\<close>; \<^verbatim>\<open>x || null\<close> turns 0 and the empty string into null\<close>
  "toGame row =
     \<lparr>g_id = ms_id row,
      g_publicKey = ms_wallet_public_key row,
      g_status = ms_status row,
      g_mines = ms_mines_count row,
      g_amount = ms_bet_amount row,
      g_datas = buildDatasFromMasks (ms_mines_mask row) (ms_revealed_mask row),
      g_expiresAt = ms_expires_at row,
      g_payoutAmount = (case ms_payout_amount row of
                          None \<Rightarrow> None | Some a \<Rightarrow> if a = 0 then None else Some a),
      g_payoutTxId = (case ms_payout_tx_id row of
                        None \<Rightarrow> None | Some t \<Rightarrow> if t = [] then None else Some t),
      g_payoutStatus = (if ms_payout_status row = [] then ''NONE'' else ms_payout_status row),
      g_payoutError = (case ms_payout_error row of
                         None \<Rightarrow> None | Some e \<Rightarrow> if e = [] then None else Some e)\<rparr>"

record mine_filters =
  f_id :: "int option"
  f_publicKey :: "string option"
  f_status :: "string option"
  f_payoutStatus :: "string option"
  f_expiresAt_gt :: "int option"

definition noFilters :: mine_filters where
  "noFilters = \<lparr>f_id = None, f_publicKey = None, f_status = None, f_payoutStatus = None,
                 f_expiresAt_gt = None\<rparr>"

definition matches :: "mine_filters \<Rightarrow> mine_session \<Rightarrow> bool" where
  \<comment> \<open>a filter whose value is falsy (absent, 0, empty string) adds no condition;
      a NULL expiry never satisfies \<^verbatim>\<open>expires_at > ?\<close>\<close>
  "matches f row =
     ((case f_id f of None \<Rightarrow> True | Some i \<Rightarrow> if i = 0 then True else ms_id row = i)
      \<and> (case f_publicKey f of
            None \<Rightarrow> True | Some k \<Rightarrow> if k = [] then True else ms_wallet_public_key row = k)
      \<and> (case f_status f of
            None \<Rightarrow> True | Some s \<Rightarrow> if s = [] then True else ms_status row = s)
      \<and> (case f_payoutStatus f of
            None \<Rightarrow> True | Some s \<Rightarrow> if s = [] then True else ms_payout_status row = s)
      \<and> (case f_expiresAt_gt f of
            None \<Rightarrow> True
          | Some t \<Rightarrow> (case ms_expires_at row of None \<Rightarrow> False | Some e \<Rightarrow> e > t)))"

definition findOne :: "mine_session list \<Rightarrow> mine_filters \<Rightarrow> mine_game option" where
  "findOne rows f = map_option toGame (find (matches f) rows)"

record mine_updates =
  u_status :: "string option"
  u_datas :: "cell list option"
  u_payoutAmount :: "int option"
  u_payoutTxId :: "string option"
  u_payoutStatus :: "string option"
  u_payoutError :: "string option option"
  u_revealedGems :: "int option"

definition noUpdates :: mine_updates where
  "noUpdates = \<lparr>u_status = None, u_datas = None, u_payoutAmount = None, u_payoutTxId = None,
                 u_payoutStatus = None, u_payoutError = None, u_revealedGems = None\<rparr>"

definition applyUpdates :: "mine_updates \<Rightarrow> mine_session \<Rightarrow> mine_session" where
  \<comment> \<open>\<open>None\<close> is \<^verbatim>\<open>undefined\<close>: the column is not touched. This variant of the model has
      no column for \<^verbatim>\<open>revealedGems\<close> and ignores it.\<close>
  "applyUpdates u row =
     row\<lparr>ms_status := (case u_status u of None \<Rightarrow> ms_status row | Some s \<Rightarrow> s),
         ms_revealed_mask := (case u_datas u of
                                None \<Rightarrow> ms_revealed_mask row
                              | Some d \<Rightarrow> snd (buildMasksFromDatas d)),
         ms_payout_amount := (case u_payoutAmount u of
                                None \<Rightarrow> ms_payout_amount row | Some a \<Rightarrow> Some a),
         ms_payout_tx_id := (case u_payoutTxId u of
                               None \<Rightarrow> ms_payout_tx_id row
                             | Some t \<Rightarrow> if t = [] then None else Some t),
         ms_payout_status := (case u_payoutStatus u of
                                None \<Rightarrow> ms_payout_status row | Some s \<Rightarrow> s),
         ms_payout_error := (case u_payoutError u of
                               None \<Rightarrow> ms_payout_error row
                             | Some None \<Rightarrow> None
                             | Some (Some e) \<Rightarrow> if e = [] then None else Some e)\<rparr>"

datatype effect =
    DbUpdate int mine_updates
  | Transfer string int
  | MoveInsert int "int option" bool

record mine_world =
  w_sessions :: "mine_session list"
  w_log :: "effect list"

definition findByIdAndUpdate :: "int \<Rightarrow> mine_updates \<Rightarrow> mine_world \<Rightarrow> mine_world" where
  \<comment> \<open>\<^verbatim>\<open>UPDATE mine_sessions SET ... WHERE id = ?\<close>; the write is appended to the log\<close>
  "findByIdAndUpdate i u w =
     w\<lparr>w_sessions := map (\<lambda>row. if ms_id row = i then applyUpdates u row else row) (w_sessions w),
       w_log := w_log w @ [DbUpdate i u]\<rparr>"

definition invokeTransfer ::
  "casino \<Rightarrow> string \<Rightarrow> int \<Rightarrow> mine_world \<Rightarrow> (string + payout_tx) \<times> mine_world" where
  \<comment> \<open>a call of \<^verbatim>\<open>payFromCasinoToUser\<close>, recorded in the log at the moment it is made\<close>
  "invokeTransfer C toPublicId amount w =
     (payFromCasinoToUser C toPublicId amount, w\<lparr>w_log := w_log w @ [Transfer toPublicId amount]\<rparr>)"

section \<open>Mines request handlers (routes/mine.js)\<close>

text \<open>
  \<^verbatim>\<open>normalizeQubicPublicId\<close> and \<^verbatim>\<open>isValidQubicPublicId\<close> come from
  \<^verbatim>\<open>utils/validation\<close>, which is not among the sources: they are parameters. A request
  field is \<open>None\<close> when it is absent; \<^verbatim>\<open>gameId\<close> and \<^verbatim>\<open>point\<close> are integers when
  present (other values are refused by the handlers with status 400 and are not modelled).
\<close>

record validation =
  normalizeQubicPublicId :: "string option \<Rightarrow> string"
  isValidQubicPublicId :: "string \<Rightarrow> bool"

record mine_request =
  rq_gameId :: "int option"
  rq_publicId :: "string option"
  rq_publicKey :: "string option"
  rq_header_public_id :: "string option"
  rq_point :: "int option"

definition js_or :: "string option \<Rightarrow> string option \<Rightarrow> string option" where
  \<comment> \<open>\<^verbatim>\<open>a || b\<close> on strings that may be undefined\<close>
  "js_or a b = (case a of None \<Rightarrow> b | Some s \<Rightarrow> if s = [] then b else a)"

definition truthy :: "string option \<Rightarrow> bool" where
  "truthy a = (case a of None \<Rightarrow> False | Some s \<Rightarrow> s \<noteq> [])"

record mine_response =
  http :: nat
  rs_status :: string
  rs_error :: "string option"
  rs_details :: "string option"
  rs_gameId :: "int option"
  rs_opened :: "nat list"
  rs_datas :: "cell list"
  rs_payoutTxId :: "string option"
  rs_payoutAmount :: "int option"
  rs_multiplier :: "rat option"
  rs_payoutTick :: "int option"

definition errorResponse :: "nat \<Rightarrow> string \<Rightarrow> mine_response" where
  "errorResponse code msg =
     \<lparr>http = code, rs_status = ''ERROR'', rs_error = Some msg, rs_details = None,
      rs_gameId = None, rs_opened = [], rs_datas = [], rs_payoutTxId = None,
      rs_payoutAmount = None, rs_multiplier = None, rs_payoutTick = None\<rparr>"




text \<open>
  Name resolution. The identifiers bound at the top level of \<^verbatim>\<open>routes/mine.js\<close> are its
  eight imports (lines 1 to 8) and its nine function declarations. An identifier that is
  bound neither there nor in the handler raises a \<^verbatim>\<open>ReferenceError\<close> whose message is
  \<^verbatim>\<open><name> is not defined\<close>.
\<close>

datatype js_binding = TransferFunction | OtherBinding

definition mine_module_bindings :: "(string \<times> js_binding) list" where
  "mine_module_bindings =
     [(''express'', OtherBinding), (''router'', OtherBinding), (''MineGame'', OtherBinding),
      (''query'', OtherBinding), (''crypto'', OtherBinding),
      (''isValidQubicPublicId'', OtherBinding), (''normalizeQubicPublicId'', OtherBinding),
      (''calculateMinesPayout'', OtherBinding), (''payFromCasinoToUser'', TransferFunction),
      (''sha256Hex'', OtherBinding), (''recordMineMove'', OtherBinding),
      (''buildInitialDatas'', OtherBinding), (''parseDatasMaybeString'', OtherBinding),
      (''countRevealedGems'', OtherBinding), (''applyPickToDatas'', OtherBinding),
      (''createMineGameInternal'', OtherBinding), (''pickMineTileInternal'', OtherBinding),
      (''cashoutMineGameInternal'', OtherBinding)]"

definition callTransferByName ::
  "string \<Rightarrow> casino \<Rightarrow> string \<Rightarrow> int \<Rightarrow> mine_world \<Rightarrow> (string + payout_tx) \<times> mine_world" where
  \<comment> \<open>the call \<^verbatim>\<open>await name({ toPublicId, amount })\<close> inside a handler that binds no
      such local name\<close>
  "callTransferByName name C toPublicId amount w =
     (case map_of mine_module_bindings name of
        None \<Rightarrow> (Inl (name @ '' is not defined''), w)
      | Some TransferFunction \<Rightarrow> invokeTransfer C toPublicId amount w
      | Some OtherBinding \<Rightarrow> (Inl (name @ '' is not a function''), w))"

definition hitBomb :: "cell list \<Rightarrow> bool" where
  "hitBomb datas = list_ex (\<lambda>d. c_mined d \<and> c_mine d = Some BOMB) datas"

text \<open>\<^verbatim>\<open>router.post('/claim')\<close>; the transfer is requested under the name
  \<^verbatim>\<open>payUserFromCasino\<close> (line 1178).\<close>

definition claim ::
  "validation \<Rightarrow> casino \<Rightarrow> mine_request \<Rightarrow> mine_world \<Rightarrow> mine_response \<times> mine_world" where
  "claim V C req w =
     (let requesterPublicId =
            normalizeQubicPublicId V (js_or (rq_publicId req) (rq_header_public_id req))
      in if \<not> isValidQubicPublicId V requesterPublicId
         then (errorResponse 400 ''Invalid Qubic publicId'', w)
         else case findOne (w_sessions w)
                     (noFilters\<lparr>f_id := rq_gameId req,
                                f_publicKey := Some requesterPublicId,
                                f_payoutStatus := Some ''FAILED''\<rparr>) of
                None \<Rightarrow> (errorResponse 404 ''No failed payout found for this game'', w)
              | Some game \<Rightarrow>
      if g_publicKey game \<noteq> requesterPublicId
      then (errorResponse 403 ''Game does not belong to requester'', w)
      else if hitBomb (g_datas game)
      then (errorResponse 400 ''Cannot claim payout for games where a bomb was hit'', w)
      else case g_payoutAmount game of
             None \<Rightarrow> (errorResponse 400 ''Invalid payout amount'', w)
           | Some amount \<Rightarrow>
      if amount \<le> 0 then (errorResponse 400 ''Invalid payout amount'', w)
      else
        let w1 = findByIdAndUpdate (g_id game)
                   (noUpdates\<lparr>u_payoutStatus := Some ''PENDING'', u_payoutError := Some None\<rparr>) w;
            (outcome, w2) = callTransferByName ''payUserFromCasino'' C (g_publicKey game) amount w1
        in case outcome of
             Inl e \<Rightarrow>
               ((errorResponse 502 ''Payout retry failed'')\<lparr>rs_details := Some e\<rparr>,
                findByIdAndUpdate (g_id game)
                  (noUpdates\<lparr>u_payoutStatus := Some ''FAILED'',
                             u_payoutError := Some (Some (errorText e))\<rparr>) w2)
           | Inr payoutTx \<Rightarrow>
               (\<lparr>http = 200, rs_status = ''SUCCESS'', rs_error = None, rs_details = None,
                 rs_gameId = Some (g_id game), rs_opened = [], rs_datas = [],
                 rs_payoutTxId = Some (tx_txId payoutTx), rs_payoutAmount = Some amount,
                 rs_multiplier = None, rs_payoutTick = Some (tx_targetTick payoutTx)\<rparr>,
                findByIdAndUpdate (g_id game)
                  (noUpdates\<lparr>u_payoutStatus := Some ''SENT'',
                             u_payoutTxId := Some (tx_txId payoutTx),
                             u_payoutError := Some None\<rparr>) w2))"

text \<open>
  \<^verbatim>\<open>router.post('/bet')\<close>. At line 509 the handler has bound \<^verbatim>\<open>req\<close>, \<^verbatim>\<open>res\<close>,
  \<^verbatim>\<open>point\<close>, \<^verbatim>\<open>publicId\<close>, \<^verbatim>\<open>game\<close>, \<^verbatim>\<open>slotIndex\<close>, \<^verbatim>\<open>isBomb\<close> and
  \<^verbatim>\<open>updateData\<close>; the call \<^verbatim>\<open>recordMineMove(game.id, tileIndex, isBomb)\<close> evaluates the
  identifier \<^verbatim>\<open>tileIndex\<close> in that scope. \<^verbatim>\<open>recordMineMove\<close> inserts a row into
  \<^verbatim>\<open>mine_moves\<close>; \<open>now\<close> is the clock read by the query for the live session.
\<close>

datatype js_value = NumberValue int | OtherValue

definition bet_scope :: "int \<Rightarrow> nat \<Rightarrow> (string \<times> js_value) list" where
  "bet_scope point slotIndex =
     [(''req'', OtherValue), (''res'', OtherValue), (''point'', NumberValue point),
      (''publicId'', OtherValue), (''game'', OtherValue),
      (''slotIndex'', NumberValue (int slotIndex)), (''isBomb'', OtherValue),
      (''updateData'', OtherValue)]
     @ map (\<lambda>(name, b). (name, OtherValue)) mine_module_bindings"

definition recordMineMove :: "int \<Rightarrow> js_value \<Rightarrow> bool \<Rightarrow> mine_world \<Rightarrow> mine_world" where
  "recordMineMove sessionId cellValue hitMine w =
     w\<lparr>w_log := w_log w @ [MoveInsert sessionId
                               (case cellValue of NumberValue n \<Rightarrow> Some n | OtherValue \<Rightarrow> None)
                               hitMine]\<rparr>"

fun findIndex :: "('a \<Rightarrow> bool) \<Rightarrow> 'a list \<Rightarrow> nat option" where
  "findIndex P [] = None"
| "findIndex P (x # xs) = (if P x then Some 0 else map_option Suc (findIndex P xs))"

definition betResponse :: "string \<Rightarrow> cell list \<Rightarrow> mine_response" where
  "betResponse st datas =
     \<lparr>http = 200, rs_status = st, rs_error = None, rs_details = None, rs_gameId = None,
      rs_opened = [], rs_datas = datas, rs_payoutTxId = None, rs_payoutAmount = None,
      rs_multiplier = None, rs_payoutTick = None\<rparr>"

definition bet ::
  "validation \<Rightarrow> int \<Rightarrow> mine_request \<Rightarrow> mine_world \<Rightarrow> mine_response \<times> mine_world" where
  "bet V now req w =
     (let publicId = normalizeQubicPublicId V (js_or (rq_publicId req) (rq_header_public_id req))
      in if \<not> isValidQubicPublicId V publicId
         then (errorResponse 400 ''Invalid Qubic publicId (identity)'', w)
         else case rq_point req of
                None \<Rightarrow> (errorResponse 400 ''Invalid point (must be integer 0-24)'', w)
              | Some point \<Rightarrow>
      if point < 0 \<or> point \<ge> 25
      then (errorResponse 400 ''Invalid point (must be integer 0-24)'', w)
      else case findOne (w_sessions w)
                  (noFilters\<lparr>f_publicKey := Some publicId, f_status := Some ''LIVE'',
                             f_expiresAt_gt := Some now\<rparr>) of
             None \<Rightarrow> (errorResponse 404 ''No active game found'', w)
           | Some game \<Rightarrow>
      case findIndex (\<lambda>d. int (c_point d) = point) (g_datas game) of
        None \<Rightarrow> (errorResponse 400 ''Invalid or already mined slot'', w)
      | Some slotIndex \<Rightarrow>
      if c_mined (g_datas game ! slotIndex)
      then (errorResponse 400 ''Invalid or already mined slot'', w)
      else
        let datas = (g_datas game)[slotIndex := (g_datas game ! slotIndex)\<lparr>c_mined := True\<rparr>];
            isBomb = (c_mine (datas ! slotIndex) = Some BOMB);
            updateData = noUpdates\<lparr>u_datas := Some datas\<rparr>
        in case map_of (bet_scope point slotIndex) ''tileIndex'' of
             None \<Rightarrow> (errorResponse 500 ''tileIndex is not defined'', w)
           | Some tileIndex \<Rightarrow>
               let w1 = recordMineMove (g_id game) tileIndex isBomb w;
                   w2 = recordMineMove (g_id game) tileIndex isBomb w1;
                   w3 = recordMineMove (g_id game) (NumberValue point) isBomb w2
               in if isBomb
                  then (betResponse ''END'' datas,
                        findByIdAndUpdate (g_id game) (updateData\<lparr>u_status := Some ''ENDED''\<rparr>) w3)
                  else if list_all c_mined (filter (\<lambda>d. c_mine d = Some GEM) datas)
                  then (betResponse ''END'' datas,
                        findByIdAndUpdate (g_id game) (updateData\<lparr>u_status := Some ''ENDED''\<rparr>) w3)
                  else (betResponse ''BET'' datas, findByIdAndUpdate (g_id game) updateData w3))"

section \<open>Crash round machine (sockets/crash.js)\<close>

text \<open>
  The runtime state of the namespace: the current game with its players (kept in memory
  only), the secret crash point, the current payout and the history. Timestamps and the
  random \<^verbatim>\<open>playerID\<close> are left out. The value of \<^verbatim>\<open>computePayout(elapsed)\<close> at a tick
  depends on the clock and on \<^verbatim>\<open>Math.exp\<close>: it is the input of a tick. A tick, a join
  and a manual cashout are taken as atomic steps. \<open>st_transfers\<close> lists the calls of
  \<^verbatim>\<open>payFromCasinoToUser\<close> in the order they are made.
\<close>

datatype game_status = NotStarted | Starting | InProgress | Over | Blocking | Refunded

datatype player_status = Bet | Cashedout | Lost

record crash_player =
  p_socketId :: string
  p_publicId :: string
  p_betAmount :: rat
  p_target :: rat
  p_currencyId :: "string option"
  p_txId :: string
  p_status :: player_status
  p_stoppedAt :: "rat option"
  p_cashoutMultiplier :: "rat option"
  p_winAmount :: "int option"
  p_payoutTxId :: "string option"
  p_payoutError :: "string option"

record crash_game =
  cg_id :: string
  cg_status :: game_status
  cg_crashPoint :: "rat option"
  cg_publicSeed :: string
  cg_privateSeed :: string
  cg_privateHash :: string
  cg_players :: "crash_player list"

record history_entry =
  h_id :: string
  h_crashPoint :: rat
  h_publicSeed :: string
  h_privateHash :: string

record crash_state =
  st_currentGame :: "crash_game option"
  st_history :: "history_entry list"
  st_crashPoint :: rat
  st_currentPayout :: rat
  st_transfers :: "(string \<times> int) list"

definition initialCrashState :: crash_state where
  "initialCrashState =
     \<lparr>st_currentGame = None, st_history = [], st_crashPoint = 0, st_currentPayout = 1,
      st_transfers = []\<rparr>"

text \<open>
  \<^verbatim>\<open>createNewRound\<close>: the two seeds and the game id are the outputs of
  \<^verbatim>\<open>crypto.randomBytes\<close>. The new game object comes back from the database with an empty
  player list and the stored crash point 0. An exception of the derivation leaves the
  state as it was.
\<close>

definition createNewRound ::
  "(string \<Rightarrow> string \<Rightarrow> string) \<Rightarrow> (string \<Rightarrow> string) \<Rightarrow> string \<Rightarrow> string \<Rightarrow> string \<Rightarrow>
   crash_state \<Rightarrow> crash_error + crash_state" where
  "createNewRound hmac sha256Hex publicSeed privateSeed gameId s =
     (case crashPointFromSeeds hmac publicSeed privateSeed of
        Inl e \<Rightarrow> Inl e
      | Inr cp \<Rightarrow>
          Inr (s\<lparr>st_crashPoint := cp,
                 st_currentPayout := 1,
                 st_currentGame :=
                   Some \<lparr>cg_id = gameId, cg_status = Starting, cg_crashPoint = Some 0,
                         cg_publicSeed = publicSeed, cg_privateSeed = privateSeed,
                         cg_privateHash = sha256Hex privateSeed, cg_players = []\<rparr>\<rparr>))"

definition startRound :: "crash_state \<Rightarrow> crash_state" where
  "startRound s =
     (case st_currentGame s of
        None \<Rightarrow> s
      | Some g \<Rightarrow>
          if cg_players g = [] then s
          else s\<lparr>st_currentGame := Some (g\<lparr>cg_status := InProgress\<rparr>)\<rparr>)"

definition endRound :: "crash_state \<Rightarrow> crash_state" where
  "endRound s =
     (case st_currentGame s of
        None \<Rightarrow> s
      | Some g \<Rightarrow>
          let g' = g\<lparr>cg_status := Over,
                     cg_crashPoint := Some (st_crashPoint s),
                     cg_players := map (\<lambda>p. if p_status p = Bet then p\<lparr>p_status := Lost\<rparr> else p)
                                     (cg_players g)\<rparr>
          in s\<lparr>st_currentGame := Some g',
                st_history := take 30 (\<lparr>h_id = cg_id g, h_crashPoint = st_crashPoint s,
                                         h_publicSeed = cg_publicSeed g,
                                         h_privateHash = cg_privateHash g\<rparr> # st_history s)\<rparr>)"

definition autoCashout ::
  "casino \<Rightarrow> rat \<Rightarrow> crash_player \<Rightarrow> crash_player \<times> (string \<times> int) list" where
  \<comment> \<open>the body of the loop over the players in a tick (lines 207 to 243): the player after
      it, and the transfer calls it makes\<close>
  "autoCashout C payout p =
     (if p_status p = Bet \<and> p_target p \<noteq> 0 \<and> payout \<ge> p_target p
      then
        let cashMult = payout;
            winAmount = Math_floor (js_mul (p_betAmount p) cashMult);
            p1 = p\<lparr>p_status := Cashedout, p_stoppedAt := Some cashMult,
                   p_cashoutMultiplier := Some cashMult, p_winAmount := Some winAmount\<rparr>
        in if winAmount > 0
           then (case payFromCasinoToUser C (p_publicId p) winAmount of
                   Inr payoutResult \<Rightarrow> p1\<lparr>p_payoutTxId := Some (tx_txId payoutResult)\<rparr>
                 | Inl payoutError \<Rightarrow> p1\<lparr>p_payoutError := Some payoutError\<rparr>,
                 [(p_publicId p, winAmount)])
           else (p1, [])
      else (p, []))"

definition tick :: "casino \<Rightarrow> rat \<Rightarrow> crash_state \<Rightarrow> crash_state" where
  "tick C payout s =
     (case st_currentGame s of
        None \<Rightarrow> s
      | Some g \<Rightarrow>
          let results = map (autoCashout C payout) (cg_players g);
              s1 = s\<lparr>st_currentGame := Some (g\<lparr>cg_players := map fst results\<rparr>),
                     st_transfers := st_transfers s @ concat (map snd results)\<rparr>
          in if payout \<ge> st_crashPoint s
             then endRound (s1\<lparr>st_currentPayout := st_crashPoint s\<rparr>)
             else s1\<lparr>st_currentPayout := payout\<rparr>)"

definition inProgress :: "crash_state \<Rightarrow> bool" where
  "inProgress s = (case st_currentGame s of None \<Rightarrow> False | Some g \<Rightarrow> cg_status g = InProgress)"

text \<open>The player list of the current game, \<^verbatim>\<open>currentGame.players || []\<close>.\<close>

definition playersOf :: "crash_state \<Rightarrow> crash_player list" where
  "playersOf s = (case st_currentGame s of None \<Rightarrow> [] | Some g \<Rightarrow> cg_players g)"

text \<open>
  The interval timer exists from \<^verbatim>\<open>startRound\<close> until \<^verbatim>\<open>endRound\<close> clears it, so the
  ticks of a round are the payouts read while the game is in progress.
\<close>

fun runTicks :: "casino \<Rightarrow> rat list \<Rightarrow> crash_state \<Rightarrow> crash_state" where
  "runTicks C [] s = s"
| "runTicks C (payout # payouts) s =
     (if inProgress s then runTicks C payouts (tick C payout s) else s)"

record join_payload =
  jp_target :: "rat option"
  jp_betAmount :: "rat option"
  jp_currencyId :: "string option"
  jp_txId :: "string option"

datatype join_result = JoinError string | JoinSuccess crash_player

text \<open>
  The \<^verbatim>\<open>join-game\<close> handler. \<open>wallet\<close> is the result of \<^verbatim>\<open>getSocketWallet(socket)\<close>;
  a payload field that is not a finite number is \<open>None\<close>; \<open>jp_txId\<close> is \<open>None\<close> when the
  field is absent or not a string.
\<close>

definition joinGame ::
  "string \<Rightarrow> string \<Rightarrow> join_payload option \<Rightarrow> crash_state \<Rightarrow> join_result \<times> crash_state" where
  "joinGame socketId wallet payload s =
     (case st_currentGame s of
        None \<Rightarrow> (JoinError ''No game available yet'', s)
      | Some g \<Rightarrow>
      if cg_status g \<noteq> Starting
      then (JoinError ''Bets are only allowed during Starting phase'', s)
      else case payload of
             None \<Rightarrow> (JoinError ''Invalid payload'', s)
           | Some pl \<Rightarrow>
      case jp_txId pl of
        None \<Rightarrow> (JoinError ''Missing txId (transaction required)'', s)
      | Some txId \<Rightarrow>
      if txId = [] then (JoinError ''Missing txId (transaction required)'', s)
      else case map_option (\<lambda>t. js_div t 100) (jp_target pl) of
             None \<Rightarrow> (JoinError ''Invalid target multiplier'', s)
           | Some target \<Rightarrow>
      if target < fl (101 / 100) then (JoinError ''Invalid target multiplier'', s)
      else case jp_betAmount pl of
             None \<Rightarrow> (JoinError ''Invalid bet amount'', s)
           | Some betAmount \<Rightarrow>
      if betAmount \<le> 0 then (JoinError ''Invalid bet amount'', s)
      else
        let publicId = wallet
        in if publicId = [] then (JoinError ''Wallet not connected (missing publicId)'', s)
           else
             let players = cg_players g
             in if list_ex (\<lambda>p. p_publicId p = publicId) players
                then (JoinError ''You already joined this round'', s)
                else if list_ex (\<lambda>p. p_txId p = txId) players
                then (JoinError ''Transaction already used'', s)
                else
                  let player = \<lparr>p_socketId = socketId, p_publicId = publicId,
                                p_betAmount = betAmount, p_target = target,
                                p_currencyId = (if truthy (jp_currencyId pl)
                                                then jp_currencyId pl else None),
                                p_txId = txId,
                                p_status = Bet, p_stoppedAt = None,
                                p_cashoutMultiplier = None, p_winAmount = None,
                                p_payoutTxId = None, p_payoutError = None\<rparr>
                  in (JoinSuccess player,
                      s\<lparr>st_currentGame := Some (g\<lparr>cg_players := players @ [player]\<rparr>)\<rparr>))"

section \<open>Slide payout loop (sockets/slide.js)\<close>

text \<open>
  A Slide player as the \<^verbatim>\<open>join-game\<close> handler creates it, with the two fields the payout
  loop may add. The loop of \<^verbatim>\<open>startGameCycle\<close> (lines 197 to 226) visits the players in
  order; \<open>settlePlayer\<close> is its body.
\<close>

record slide_player =
  sp_playerId :: string
  sp_publicId :: string
  sp_betAmount :: rat
  sp_target :: rat
  sp_currencyId :: string
  sp_txId :: string
  sp_status :: string
  sp_winAmount :: "int option"
  sp_payoutTxId :: "string option"

definition settlePlayer ::
  "casino \<Rightarrow> rat \<Rightarrow> slide_player \<Rightarrow> slide_player \<times> (string \<times> int) list" where
  "settlePlayer C crashPoint player =
     (if sp_status player = ''playing'' \<and> sp_publicId player \<noteq> []
      then
        if crashPoint \<ge> sp_target player
        then
          let winAmount = Math_floor (js_mul (sp_betAmount player) (sp_target player))
          in if winAmount > 0
             then (case payFromCasinoToUser C (sp_publicId player) winAmount of
                     Inr payoutResult \<Rightarrow>
                       player\<lparr>sp_status := ''won'', sp_winAmount := Some winAmount,
                              sp_payoutTxId := Some (tx_txId payoutResult)\<rparr>
                   | Inl payoutError \<Rightarrow>
                       player\<lparr>sp_status := ''lost'', sp_winAmount := Some 0\<rparr>,
                   [(sp_publicId player, winAmount)])
             else (player\<lparr>sp_status := ''lost'', sp_winAmount := Some 0\<rparr>, [])
        else (player\<lparr>sp_status := ''lost'', sp_winAmount := Some 0\<rparr>, [])
      else (player, []))"

definition payoutLoop ::
  "casino \<Rightarrow> rat \<Rightarrow> slide_player list \<Rightarrow> slide_player list \<times> (string \<times> int) list" where
  "payoutLoop C crashPoint players =
     (let results = map (settlePlayer C crashPoint) players
      in (map fst results, concat (map snd results)))"

section \<open>Example data\<close>

text \<open>
  A validation that accepts every non-empty identity, a casino whose transfers succeed and
  one whose transfers fail, and a live Mines session of the wallet \<open>ALICE\<close> with stake
  1000 and three mines (cells 0, 1, 2) of which the five safe cells 3 to 7 are revealed.
\<close>

definition exampleValidation :: validation where
  "exampleValidation =
     \<lparr>normalizeQubicPublicId = (\<lambda>x. case x of None \<Rightarrow> [] | Some s \<Rightarrow> s),
      isValidQubicPublicId = (\<lambda>s. s \<noteq> [])\<rparr>"

definition payingCasino :: casino where
  "payingCasino =
     \<lparr>casino_config_error = None,
      casino_broadcast = (\<lambda>toPublicId amount. Inr \<lparr>tx_txId = ''TX1'', tx_targetTick = 120\<rparr>)\<rparr>"

definition failingCasino :: casino where
  "failingCasino =
     \<lparr>casino_config_error = None,
      casino_broadcast = (\<lambda>toPublicId amount. Inl ''RPC broadcast error'')\<rparr>"

definition exampleSession :: mine_session where
  "exampleSession =
     \<lparr>ms_id = 7, ms_wallet_public_key = ''ALICE'', ms_status = ''LIVE'', ms_mines_count = 3,
      ms_bet_amount = 1000, ms_mines_mask = 7, ms_revealed_mask = 248,
      ms_payout_amount = None, ms_payout_tx_id = None, ms_payout_status = ''NONE'',
      ms_payout_error = None, ms_expires_at = Some 1000\<rparr>"

definition exampleWorld :: mine_world where
  "exampleWorld = \<lparr>w_sessions = [exampleSession], w_log = []\<rparr>"

definition exampleRequest :: mine_request where
  "exampleRequest =
     \<lparr>rq_gameId = Some 7, rq_publicId = Some ''ALICE'', rq_publicKey = None,
      rq_header_public_id = None, rq_point = None\<rparr>"

text \<open>
  The same session after a cashout whose transfer failed, and a Slide player with stake 100
  and target 2.
\<close>

definition failedSession :: mine_session where
  "failedSession =
     exampleSession\<lparr>ms_payout_amount := Some 1967, ms_payout_status := ''FAILED'',
                     ms_payout_error := Some ''RPC broadcast error''\<rparr>"

definition failedWorld :: mine_world where
  "failedWorld = \<lparr>w_sessions = [failedSession], w_log = []\<rparr>"

definition exampleSlidePlayer :: slide_player where
  "exampleSlidePlayer =
     \<lparr>sp_playerId = ''socket-1'', sp_publicId = ''ALICE'', sp_betAmount = 100, sp_target = 2,
      sp_currencyId = [], sp_txId = ''tx-9'', sp_status = ''playing'', sp_winAmount = None,
      sp_payoutTxId = None\<rparr>"

text \<open>
  Crash: a digest function that always returns the digest 8000...0 (crash point 1.99), a
  join payload with target 3.00, stake 1000 and transaction id \<open>tx-1\<close>, and a round in
  progress with crash point 2.99 and two participants whose targets are 2.99 and 3.00.
\<close>

definition stubHmac :: "string \<Rightarrow> string \<Rightarrow> string" where
  "stubHmac key msg = ''8000000000000000000000000000000000000000000000000000000000000000''"

definition examplePayload :: join_payload where
  "examplePayload =
     \<lparr>jp_target = Some 300, jp_betAmount = Some 1000, jp_currencyId = None,
      jp_txId = Some ''tx-1''\<rparr>"

definition crashPlayer :: "string \<Rightarrow> string \<Rightarrow> rat \<Rightarrow> crash_player" where
  "crashPlayer wallet txId target =
     \<lparr>p_socketId = ''socket-'' @ wallet, p_publicId = wallet, p_betAmount = 1000,
      p_target = target, p_currencyId = None, p_txId = txId, p_status = Bet,
      p_stoppedAt = None, p_cashoutMultiplier = None, p_winAmount = None,
      p_payoutTxId = None, p_payoutError = None\<rparr>"


text \<open>
  Two rounds in a row. The wallet \<open>ALICE\<close> joins the first round with the transaction id
  \<open>tx-1\<close>; the round starts and its first tick reads the payout 2, above the crash point
  1.99; the next round is created and the same wallet sends the same join payload again.
  The scenario returns the answer to the first join, the players and the status of the
  first round when it is over, and the answer to the second join.
\<close>

definition replayScenario ::
  "(join_result \<times> crash_player list \<times> game_status \<times> join_result) option" where
  "replayScenario =
     (case createNewRound stubHmac (\<lambda>seed. ''hash'') ''c0de'' ''5eed'' ''game-1'' initialCrashState of
        Inl e \<Rightarrow> None
      | Inr s1 \<Rightarrow>
          let (first, s2) = joinGame ''socket-ALICE'' ''ALICE'' (Some examplePayload) s1;
              s3 = runTicks payingCasino [2] (startRound s2)
          in case createNewRound stubHmac (\<lambda>seed. ''hash'') ''c0de'' ''5eed'' ''game-2'' s3 of
               Inl e \<Rightarrow> None
             | Inr s4 \<Rightarrow>
                 Some (first, playersOf s3,
                       (case st_currentGame s3 of None \<Rightarrow> NotStarted | Some g \<Rightarrow> cg_status g),
                       fst (joinGame ''socket-ALICE'' ''ALICE'' (Some examplePayload) s4)))"

section \<open>Properties\<close>

subsection \<open>Rounding to double precision\<close>

lemma pow2_powi: "pow2 e = 2 powi e"
  by (simp add: pow2_def power_int_def power_one_over)



lemma pow2_nat: "pow2 (int n) = 2 ^ n"
  by (simp add: pow2_def)

lemma pow2_mono: "a \<le> b \<Longrightarrow> pow2 a \<le> pow2 b"
  by (simp add: pow2_powi power_int_increasing)

lemma bitlen_bounds: "0 < n \<Longrightarrow> 2 ^ (bitlen n - 1) \<le> n \<and> n < 2 ^ bitlen n"
proof (induction n rule: bitlen.induct)
  case (1 n)
  have bl: "bitlen n = Suc (bitlen (n div 2))"
    using "1.prems" by (simp add: bitlen.simps [of n])
  show ?case
  proof (cases "n div 2 = 0")
    case True
    with "1.prems" have "n = 1" by presburger
    then show ?thesis by (simp add: bitlen.simps)
  next
    case False
    then have IH: "2 ^ (bitlen (n div 2) - 1) \<le> n div 2" "n div 2 < 2 ^ bitlen (n div 2)"
      using "1.IH" "1.prems" by auto
    have pos: "0 < bitlen (n div 2)"
      using False by (simp add: bitlen.simps [of "n div 2"])
    have eq: "(2::nat) ^ bitlen (n div 2) = 2 * 2 ^ (bitlen (n div 2) - 1)"
      using pos by (cases "bitlen (n div 2)") auto
    have "(2::nat) ^ (bitlen n - 1) = 2 ^ bitlen (n div 2)" by (simp add: bl)
    also have "\<dots> \<le> 2 * (n div 2)" using IH(1) by (simp add: eq)
    also have "\<dots> \<le> n" by presburger
    finally have lo: "2 ^ (bitlen n - 1) \<le> n" .
    have "n < 2 * (n div 2) + 2" by presburger
    also have "\<dots> \<le> 2 * 2 ^ bitlen (n div 2)" using IH(2) by simp
    also have "\<dots> = 2 ^ bitlen n" by (simp add: bl)
    finally have hi: "n < 2 ^ bitlen n" .
    from lo hi show ?thesis by simp
  qed
qed

lemma expo_ge1:
  assumes "1 \<le> q"
  shows "0 \<le> expo q" and "pow2 (expo q) \<le> q" and "q < pow2 (expo q + 1)"
proof -
  define n where "n = nat \<lfloor>q\<rfloor>"
  have n1: "0 < n" using assms by (simp add: n_def)
  have e: "expo q = int (bitlen n) - 1" using assms by (simp add: expo_def n_def)
  have bpos: "0 < bitlen n" using n1 by (simp add: bitlen.simps [of n])
  from bitlen_bounds [OF n1] have lo: "2 ^ (bitlen n - 1) \<le> n" and hi: "n < 2 ^ bitlen n" by auto
  show "0 \<le> expo q" using e bpos by simp
  have e': "expo q = int (bitlen n - 1)" using e bpos by simp
  have nq: "rat_of_nat n = of_int \<lfloor>q\<rfloor>" using assms by (simp add: n_def)
  have "pow2 (expo q) = 2 ^ (bitlen n - 1)" by (simp only: e' pow2_nat)
  also have "\<dots> = rat_of_nat (2 ^ (bitlen n - 1))" by simp
  also have "\<dots> \<le> rat_of_nat n" using lo by (simp only: of_nat_le_iff)
  also have "\<dots> \<le> q" by (simp add: nq)
  finally show "pow2 (expo q) \<le> q" .
  have "expo q + 1 = int (bitlen n)" using e by simp
  then have p: "pow2 (expo q + 1) = rat_of_nat (2 ^ bitlen n)" by (simp add: pow2_nat)
  have "q < of_int \<lfloor>q\<rfloor> + 1" by linarith
  also have "\<dots> = rat_of_nat (n + 1)" using nq by simp
  also have "\<dots> \<le> rat_of_nat (2 ^ bitlen n)"
  proof -
    have "n + 1 \<le> 2 ^ bitlen n" using hi by simp
    then show ?thesis by (simp only: of_nat_le_iff)
  qed
  finally show "q < pow2 (expo q + 1)" using p by simp
qed

lemma round_half_even_of_int: "round_half_even (of_int m) = m"
  by (simp add: round_half_even_def)


lemma fl_ge1_unfold:
  assumes "1 \<le> q"
  shows "fl q = of_int (round_half_even (q / pow2 (expo q - 52))) * pow2 (expo q - 52)"
proof -
  have "0 \<le> expo q" using assms by (rule expo_ge1)
  then have "max (expo \<bar>q\<bar>) (- 1022) = expo q" using assms by simp
  then show ?thesis using assms by (simp add: fl_def Let_def)
qed


lemma fl_of_int:
  assumes "1 \<le> n" and "n < 2 ^ 53"
  shows "fl (of_int n) = of_int n"
proof -
  define q :: rat where "q = of_int n"
  have q1: "1 \<le> q" using assms by (simp add: q_def)
  define e where "e = expo q"
  have e0: "0 \<le> e" unfolding e_def using q1 by (rule expo_ge1)
  have "e \<le> 52"
  proof (rule ccontr)
    assume "\<not> e \<le> 52"
    then have "53 \<le> e" by simp
    then have "pow2 53 \<le> pow2 e" by (rule pow2_mono)
    also have "\<dots> \<le> q" unfolding e_def using q1 by (rule expo_ge1)
    finally have "(2 :: rat) ^ 53 \<le> of_int n" by (simp add: pow2_def q_def)
    then have "rat_of_int (2 ^ 53) \<le> rat_of_int n" by simp
    then have "(2 :: int) ^ 53 \<le> n" by (simp only: of_int_le_iff)
    with assms show False by simp
  qed
  define k where "k = nat (52 - e)"
  have u: "pow2 (e - 52) = 1 / 2 ^ k"
    using \<open>e \<le> 52\<close> by (cases "e = 52") (simp_all add: pow2_def k_def)
  have "q / pow2 (e - 52) = of_int (n * 2 ^ k)" by (simp add: u q_def)
  then have "round_half_even (q / pow2 (e - 52)) = n * 2 ^ k"
    by (simp only: round_half_even_of_int)
  then have "fl q = of_int (n * 2 ^ k) * (1 / 2 ^ k)"
    using fl_ge1_unfold [OF q1] by (simp add: e_def [symmetric] u)
  then show ?thesis by (simp add: q_def)
qed


subsection \<open>Exact integer steps\<close>

lemma js_mul_exact:
  "1 \<le> a * b \<Longrightarrow> a * b < 2 ^ 53 \<Longrightarrow> js_mul (of_int a) (of_int b) = of_int (a * b)"
  using fl_of_int [of "a * b"] by (simp add: js_mul_def)

lemma js_div_exact:
  assumes "b \<noteq> 0" and "b dvd a" and "1 \<le> a div b" and "a div b < 2 ^ 53"
  shows "js_div (of_int a) (of_int b) = of_int (a div b)"
proof -
  from assms(2) obtain c where c: "a = b * c" by (auto simp: dvd_def)
  then have "a div b = c" using assms(1) by simp
  moreover have "rat_of_int a / rat_of_int b = of_int c" using c assms(1) by simp
  ultimately show ?thesis using fl_of_int [of c] assms by (simp add: js_div_def)
qed

lemma comb_step:
  assumes "i \<noteq> 0" and "i dvd r * m" and "1 \<le> r * m" and "r * m < 2 ^ 53" and "1 \<le> r * m div i"
  shows "js_div (js_mul (of_int r) (of_int m)) (of_int i) = of_int (r * m div i)"
proof -
  have "r * m div i \<le> r * m" using assms
    by (metis abs_of_nonneg div_by_0 div_by_1 int_one_le_iff_zero_less less_le_not_le linorder_not_le nonneg1_imp_zdiv_pos_iff order_le_less_trans pos_imp_zdiv_neg_iff zdiv_mono2 zero_less_one_class.zero_le_one)
  then have lt: "r * m div i < 2 ^ 53" using assms(4) by simp
  have "js_mul (of_int r) (of_int m) = of_int (r * m)"
    using assms(3,4) by (rule js_mul_exact)
  moreover have "js_div (of_int (r * m)) (of_int i) = of_int (r * m div i)"
    using assms(1,2,5) lt by (rule js_div_exact)
  ultimately show ?thesis by simp
qed

lemma combination_25_5: "combination 25 5 = 53130"
  using comb_step [of 1 1 21] comb_step [of 2 21 22] comb_step [of 3 231 23]
    comb_step [of 4 1771 24] comb_step [of 5 10626 25]
  by (simp add: combination_def combination_loop.simps)

lemma combination_22_5: "combination 22 5 = 26334"
  using comb_step [of 1 1 18] comb_step [of 2 18 19] comb_step [of 3 171 20]
    comb_step [of 4 1140 21] comb_step [of 5 5985 22]
  by (simp add: combination_def combination_loop.simps)

subsection \<open>Mines payout: the documented scenario\<close>

lemma houseEdge_double: "fl (1 / 40) = 3602879701896397 / 144115188075855872"
  by code_simp

lemma one_minus_houseEdge:
  "js_sub 1 (3602879701896397 / 144115188075855872) = 8782019273372467 / 9007199254740992"
  by code_simp

lemma trueMultiplier_3_5: "js_div 53130 26334 = 4543104887259711 / 2251799813685248"
  by code_simp

lemma multiplier_3_5:
  "js_mul (4543104887259711 / 2251799813685248) (8782019273372467 / 9007199254740992)
     = 2214763632539109 / 1125899906842624"
  by code_simp

lemma stake_times_multiplier:
  "js_mul 1000 (2214763632539109 / 1125899906842624) = 8651420439605895 / 4398046511104"
  by code_simp

lemma floor_payout: "\<lfloor>8651420439605895 / 4398046511104 :: rat\<rfloor> = 1967"
  by (simp add: floor_eq_iff)

lemma payout_scenario_value:
  "calculateMinesPayout (fl (1 / 40)) \<lparr>in_mines = 3, in_revealedGems = 5, in_betAmount = 1000\<rparr>
     = Inr \<lparr>res_payoutAmount = 1967,
            res_multiplier = 2214763632539109 / 1125899906842624,
            res_trueMultiplier = 4543104887259711 / 2251799813685248,
            res_houseEdge = 3602879701896397 / 144115188075855872\<rparr>"
  by (simp add: calculateMinesPayout_def Let_def combination_25_5 combination_22_5
      houseEdge_double one_minus_houseEdge trueMultiplier_3_5 multiplier_3_5
      stake_times_multiplier Math_floor_def floor_payout)

text \<open>
  Claim C7, as stated in the specification: with mines = 3, stake = 1000, five revealed safe
  cells and house edge 0.025, the payout amount is 1966. The code computes 1967.
\<close>

theorem C7_payout_is_not_1966:
  "map_sum id res_payoutAmount
     (calculateMinesPayout (fl (1 / 40))
        \<lparr>in_mines = 3, in_revealedGems = 5, in_betAmount = 1000\<rparr>)
   \<noteq> Inr 1966"
  by (simp only: payout_scenario_value) simp

text \<open>
  Claim C7, amended: for mines = 3, stake = 1000 and five revealed safe cells, cashout under
  house edge 0.025 computes C(25,5) = 53130 and C(22,5) = 26334, the multiplier
  53130/26334 * (1 - 0.025) in double arithmetic (between 1.967105 and 1.967106), and the
  payout amount floor(1000 * multiplier) = 1967; the exact rational value
  floor(1000 * 53130/26334 * 0.975) is 1967 as well.
\<close>

theorem C7_payout_scenario:
  "combination 25 5 = 53130
   \<and> combination (25 - 3) 5 = 26334
   \<and> calculateMinesPayout (fl (1 / 40))
        \<lparr>in_mines = 3, in_revealedGems = 5, in_betAmount = 1000\<rparr>
       = Inr \<lparr>res_payoutAmount = 1967,
              res_multiplier = js_mul (js_div 53130 26334) (js_sub 1 (fl (1 / 40))),
              res_trueMultiplier = js_div 53130 26334,
              res_houseEdge = fl (1 / 40)\<rparr>
   \<and> Math_floor (js_mul 1000 (js_mul (js_div 53130 26334) (js_sub 1 (fl (1 / 40))))) = 1967
   \<and> 1967105 / 1000000 < js_mul (js_div 53130 26334) (js_sub 1 (fl (1 / 40)))
   \<and> js_mul (js_div 53130 26334) (js_sub 1 (fl (1 / 40))) < 1967106 / 1000000
   \<and> \<lfloor>1000 * (53130 / 26334) * (1 - 1 / 40 :: rat)\<rfloor> = 1967"
  by (simp add: calculateMinesPayout_def Let_def combination_25_5 combination_22_5
      houseEdge_double one_minus_houseEdge trueMultiplier_3_5 multiplier_3_5
      stake_times_multiplier Math_floor_def floor_payout floor_eq_iff)

subsection \<open>Crash point derivation\<close>









lemma step_199a: "js_div 199 100 = 8962163258467287 / 4503599627370496"
  by code_simp

lemma step_199b: "js_mul (8962163258467287 / 4503599627370496) 100 = 199"
  by code_simp

lemma hexDigit_8: "hexDigit CHR ''8'' = Some 8"
  by (simp add: hexDigit_def)

lemma hexDigit_0: "hexDigit CHR ''0'' = Some 0"
  by (simp add: hexDigit_def)

lemma step_parse: "BigInt_hex ''8000000000000'' = Some 2251799813685248"
  by (simp add: BigInt_hex_def hexDigit_8 hexDigit_0)

lemma step_take:
  "take 13 ''8000000000000000000000000000000000000000000000000000000000000000'' = ''8000000000000''"
  by simp

lemma step_crash100:
  "crash100FromDigest ''8000000000000000000000000000000000000000000000000000000000000000'' = Inr 199"
  by (simp only: crash100FromDigest_def step_take step_parse) (simp add: bigint_div_def)

lemma step_tail: "crashPointOfCrash100 199 = 8962163258467287 / 4503599627370496"
  using fl_of_int [of 199]
  by (simp add: crashPointOfCrash100_def step_199a step_199b Math_floor_def)










subsection \<open>Mines layout\<close>

lemma placeMines_inv:
  assumes "placeMines mines draws acc = Some ps"
    and "distinct acc" and "\<forall>d \<in> set draws. d < 25" and "\<forall>a \<in> set acc. a < 25"
    and "int (length acc) \<le> mines"
  shows "distinct ps \<and> int (length ps) = mines \<and> (\<forall>p \<in> set ps. p < 25)"
  using assms
proof (induction draws arbitrary: acc)
  case Nil
  then show ?case by (auto split: if_splits)
next
  case (Cons pos draws)
  show ?case
  proof (cases "int (length acc) < mines")
    case True
    let ?acc = "if pos \<in> set acc then acc else acc @ [pos]"
    have "placeMines mines draws ?acc = Some ps" using Cons.prems(1) True by simp
    moreover have "distinct ?acc" using Cons.prems(2) by simp
    moreover have "\<forall>d \<in> set draws. d < 25" using Cons.prems(3) by simp
    moreover have "\<forall>a \<in> set ?acc. a < 25" using Cons.prems(3,4) by simp
    moreover have "int (length ?acc) \<le> mines" using True by simp
    ultimately show ?thesis by (rule Cons.IH)
  next
    case False
    then show ?thesis using Cons.prems by auto
  qed
qed

lemma placeMines_returns:
  assumes "distinct acc" and "mines \<le> int (card (set acc \<union> set draws))"
  shows "placeMines mines draws acc \<noteq> None"
  using assms
proof (induction draws arbitrary: acc)
  case Nil
  then show ?case by (simp add: distinct_card)
next
  case (Cons pos draws)
  let ?acc = "if pos \<in> set acc then acc else acc @ [pos]"
  have eq: "set ?acc \<union> set draws = set acc \<union> set (pos # draws)" by auto
  have "distinct ?acc" using Cons.prems(1) by simp
  moreover have "mines \<le> int (card (set ?acc \<union> set draws))"
    using Cons.prems(2) by (simp only: eq)
  ultimately have "placeMines mines draws ?acc \<noteq> None" by (rule Cons.IH)
  then show ?case by simp
qed

lemma enumerate_map_upt:
  "enumerate 0 (map f [0..<n]) = map (\<lambda>i. (i, f i)) [0..<n]"
  by (simp add: enumerate_eq_zip zip_map2 zip_same_conv_map del: upt_Suc)

lemma assignMines_initialDatas:
  "assignMines ps initialDatas
     = map (\<lambda>i. \<lparr>c_point = i, c_mine = Some (if i \<in> set ps then BOMB else GEM), c_mined = False\<rparr>)
         [0..<25]"
proof -
  have "assignMines ps initialDatas
          = map (\<lambda>(index, item). item\<lparr>c_mine := Some (if index \<in> set ps then BOMB else GEM)\<rparr>)
              (map (\<lambda>i. (i, \<lparr>c_point = i, c_mine = None, c_mined = False\<rparr>)) [0..<25])"
    by (simp only: assignMines_def initialDatas_def enumerate_map_upt)
  also have "\<dots> = map (\<lambda>i. \<lparr>c_point = i, c_mine = Some (if i \<in> set ps then BOMB else GEM),
                              c_mined = False\<rparr>) [0..<25]"
    unfolding map_map by (rule map_cong) simp_all
  finally show ?thesis .
qed

lemma bombPoints_map:
  "bombPoints (map (\<lambda>i. \<lparr>c_point = i, c_mine = Some (if i \<in> S then BOMB else GEM),
                           c_mined = False\<rparr>) xs)
     = filter (\<lambda>i. i \<in> S) xs"
  by (induction xs) (simp_all add: bombPoints_def)

lemma bombPoints_assignMines:
  "bombPoints (assignMines ps initialDatas) = filter (\<lambda>i. i \<in> set ps) [0..<25]"
  by (simp only: assignMines_initialDatas bombPoints_map)

lemma bombPoints_layout:
  assumes "distinct ps" and "\<forall>p \<in> set ps. p < 25"
  shows "set (bombPoints (assignMines ps initialDatas)) = set ps"
    and "distinct (bombPoints (assignMines ps initialDatas))"
    and "length (bombPoints (assignMines ps initialDatas)) = length ps"
proof -
  show s: "set (bombPoints (assignMines ps initialDatas)) = set ps"
    using assms(2) by (auto simp: bombPoints_assignMines)
  show d: "distinct (bombPoints (assignMines ps initialDatas))"
    by (simp add: bombPoints_assignMines)
  have "length (bombPoints (assignMines ps initialDatas))
          = card (set (bombPoints (assignMines ps initialDatas)))"
    using d by (simp add: distinct_card)
  also have "\<dots> = length ps" using assms(1) by (simp add: s distinct_card)
  finally show "length (bombPoints (assignMines ps initialDatas)) = length ps" .
qed

text \<open>
  Claim C2, as stated in the specification: the mine layout is a deterministic function of
  the two seeds. In the code the layout is decided by the \<^verbatim>\<open>Math.random\<close> draws made
  before the seeds are generated: two sessions with the same seeds and different draws get
  different layouts.
\<close>

theorem C2_layout_ignores_seeds:
  "map_option gd_datas (createGameData rev 0 [3] ''aa'' ''bb'' ''W'' 1 10 None)
     \<noteq> map_option gd_datas (createGameData rev 0 [7] ''aa'' ''bb'' ''W'' 1 10 None)
   \<and> map_option gd_publicSeed (createGameData rev 0 [3] ''aa'' ''bb'' ''W'' 1 10 None)
       = map_option gd_publicSeed (createGameData rev 0 [7] ''aa'' ''bb'' ''W'' 1 10 None)
   \<and> map_option gd_privateSeed (createGameData rev 0 [3] ''aa'' ''bb'' ''W'' 1 10 None)
       = map_option gd_privateSeed (createGameData rev 0 [7] ''aa'' ''bb'' ''W'' 1 10 None)"
proof -
  have a: "placeMines 1 [3] [] = Some [3]" and b: "placeMines 1 [7] [] = Some [7]" by simp_all
  have "3 \<in> set (bombPoints (assignMines [3] initialDatas))"
    and "3 \<notin> set (bombPoints (assignMines [7] initialDatas))"
    by (simp_all add: bombPoints_assignMines)
  then have "bombPoints (assignMines [3] initialDatas) \<noteq> bombPoints (assignMines [7] initialDatas)"
    by metis
  then have "assignMines [3] initialDatas \<noteq> assignMines [7] initialDatas" by auto
  then show ?thesis by (simp add: createGameData_def a b)
qed


text \<open>
  Claim C2, amended: for every Mines session created with a mine count from 1 to 24, the
  layout has 25 cells, of which exactly \<open>mineCount\<close> distinct cells with indices in 0..24
  are mines (a repeated draw is drawn again), and creation returns as soon as the random
  source has produced \<open>mineCount\<close> distinct indices. The layout is determined by the
  \<^verbatim>\<open>Math.random\<close> draws alone: it is the same whatever the two seeds and the hash
  function are, so it cannot be recomputed from the seeds.
\<close>

theorem C2_mine_layout:
  assumes "\<forall>d \<in> set draws. d < 25" and "1 \<le> mines" and "mines \<le> 24"
  shows "(mines \<le> int (card (set draws)) \<longrightarrow>
            createGameData sha256Hex now draws publicSeed privateSeed publicId mines amount txId
              \<noteq> None)
       \<and> (\<forall>g. createGameData sha256Hex now draws publicSeed privateSeed publicId mines amount txId
                 = Some g \<longrightarrow>
              length (gd_datas g) = 25
            \<and> distinct (bombPoints (gd_datas g))
            \<and> int (length (bombPoints (gd_datas g))) = mines
            \<and> (\<forall>p \<in> set (bombPoints (gd_datas g)). p < 25)
            \<and> (\<forall>sha' publicSeed' privateSeed'.
                  map_option gd_datas
                    (createGameData sha' now draws publicSeed' privateSeed' publicId mines amount txId)
                  = Some (gd_datas g)))"
proof (intro conjI impI allI)
  assume "mines \<le> int (card (set draws))"
  then have "placeMines mines draws [] \<noteq> None" by (intro placeMines_returns) auto
  then show "createGameData sha256Hex now draws publicSeed privateSeed publicId mines amount txId
              \<noteq> None"
    by (auto simp: createGameData_def)
next
  fix g
  assume g: "createGameData sha256Hex now draws publicSeed privateSeed publicId mines amount txId
               = Some g"
  then obtain ps where ps: "placeMines mines draws [] = Some ps"
    and d: "gd_datas g = assignMines ps initialDatas"
    by (auto simp: createGameData_def split: option.splits)
  from placeMines_inv [OF ps] assms have inv: "distinct ps" "int (length ps) = mines"
    "\<forall>p \<in> set ps. p < 25" by auto
  show "length (gd_datas g) = 25" by (simp add: d assignMines_initialDatas)
  show "distinct (bombPoints (gd_datas g))" using inv by (simp add: d bombPoints_layout)
  show "int (length (bombPoints (gd_datas g))) = mines" using inv by (simp add: d bombPoints_layout)
  show "\<forall>p \<in> set (bombPoints (gd_datas g)). p < 25" using inv by (simp add: d bombPoints_layout)
  fix sha' publicSeed' privateSeed'
  show "map_option gd_datas
          (createGameData sha' now draws publicSeed' privateSeed' publicId mines amount txId)
        = Some (gd_datas g)"
    by (simp add: createGameData_def ps d)
qed


text \<open>The hypotheses are satisfiable: two mines placed from the draws 3, 3, 7.\<close>

theorem C2_mine_layout_witness:
  "list_all (\<lambda>d. d < 25) [3, 3, 7 :: nat] \<and> (1 :: int) \<le> 2 \<and> (2 :: int) \<le> 24
   \<and> createGameData rev 0 [3, 3, 7] ''aa'' ''bb'' ''W'' 2 10 None \<noteq> None
   \<and> map_option (bombPoints \<circ> gd_datas) (createGameData rev 0 [3, 3, 7] ''aa'' ''bb'' ''W'' 2 10 None)
       = Some [3, 7]"
proof -
  have h: "\<forall>d \<in> set [3, 3, 7 :: nat]. d < 25" "(1 :: int) \<le> 2" "(2 :: int) \<le> 24" by simp_all
  have p: "placeMines 2 [3, 3, 7] [] = Some [3, 7]" by simp
  have "filter (\<lambda>i. i = 3 \<or> i = 7) [0..<25] = [3, 7 :: nat]" by (simp add: upt_rec)
  then have b: "map_option (bombPoints \<circ> gd_datas)
                  (createGameData rev 0 [3, 3, 7] ''aa'' ''bb'' ''W'' 2 10 None) = Some [3, 7]"
    by (simp add: createGameData_def p bombPoints_assignMines)
  from C2_mine_layout [OF h, of rev 0 "''aa''" "''bb''" "''W''" 10 None] b h
  show ?thesis by (simp add: card_insert_if)
qed

subsection \<open>Mines: the reveal endpoint\<close>

lemma tileIndex_unbound: "map_of (bet_scope point slotIndex) ''tileIndex'' = None"
  by (simp add: bet_scope_def mine_module_bindings_def)

lemma payUserFromCasino_unbound: "map_of mine_module_bindings ''payUserFromCasino'' = None"
  by (simp add: mine_module_bindings_def)

lemma findIndex_map_upt:
  assumes "\<And>i. c_point (f i) = i" and "a \<le> p" and "p < b"
  shows "findIndex (\<lambda>d. int (c_point d) = int p) (map f [a..<b]) = Some (p - a)"
  using assms(2,3)
proof (induction "p - a" arbitrary: a)
  case 0
  then have "a = p" by simp
  then have "[a..<b] = p # [Suc p..<b]" using 0 by (simp add: upt_conv_Cons)
  then show ?case using assms(1) \<open>a = p\<close> by simp
next
  case (Suc n)
  then have lt: "a < p" by simp
  then have "[a..<b] = a # [Suc a..<b]" using Suc.prems by (simp add: upt_conv_Cons)
  moreover have "findIndex (\<lambda>d. int (c_point d) = int p) (map f [Suc a..<b]) = Some (p - Suc a)"
    using Suc lt by (intro Suc.hyps) auto
  ultimately show ?case using assms(1) lt by simp
qed

lemma findIndex_datas:
  assumes "p < 25"
  shows "findIndex (\<lambda>d. int (c_point d) = int p) (buildDatasFromMasks m r) = Some p"
proof -
  have "findIndex (\<lambda>d. int (c_point d) = int p)
          (map (\<lambda>i. \<lparr>c_point = i, c_mine = Some (if maskHas m i then BOMB else GEM),
                        c_mined = maskHas r i\<rparr>) [0..<25]) = Some (p - 0)"
    by (rule findIndex_map_upt) (use assms in simp_all)
  then show ?thesis by (simp add: buildDatasFromMasks_def MINE_CELL_COUNT_def del: upt_Suc)
qed

lemma nth_datas:
  assumes "p < 25"
  shows "buildDatasFromMasks m r ! p
           = \<lparr>c_point = p, c_mine = Some (if maskHas m p then BOMB else GEM), c_mined = maskHas r p\<rparr>"
  using assms by (simp add: buildDatasFromMasks_def MINE_CELL_COUNT_def del: upt_Suc)

lemma bet_persists_nothing: "snd (bet V now req w) = w"
  by (simp add: bet_def Let_def tileIndex_unbound split: option.splits)

text \<open>
  Claim C10: every request to the \<^verbatim>\<open>/bet\<close> endpoint that targets a valid cell, not yet
  revealed, of a live unexpired session is answered with status 500 and changes nothing in
  the store: the handler evaluates the unbound identifier \<^verbatim>\<open>tileIndex\<close> before it
  reaches the database update. No request at all changes the store through this endpoint.
\<close>

theorem C10_bet_always_fails:
  assumes "isValidQubicPublicId V
             (normalizeQubicPublicId V (js_or (rq_publicId req) (rq_header_public_id req)))"
    and "rq_point req = Some point" and "0 \<le> point" and "point < 25"
    and "find (matches (noFilters\<lparr>f_publicKey :=
                 Some (normalizeQubicPublicId V (js_or (rq_publicId req) (rq_header_public_id req))),
               f_status := Some ''LIVE'', f_expiresAt_gt := Some now\<rparr>)) (w_sessions w) = Some row"
    and "\<not> maskHas (ms_revealed_mask row) (nat point)"
  shows "bet V now req w = (errorResponse 500 ''tileIndex is not defined'', w)
       \<and> http (fst (bet V now req w)) = 500
       \<and> snd (bet V now' req' w') = w'"
proof -
  have p: "nat point < 25" "int (nat point) = point" using assms(3,4) by simp_all
  have fi: "findIndex (\<lambda>d. int (c_point d) = point)
              (buildDatasFromMasks (ms_mines_mask row) (ms_revealed_mask row)) = Some (nat point)"
    using findIndex_datas [OF p(1)] by (simp only: p(2))
  have "bet V now req w = (errorResponse 500 ''tileIndex is not defined'', w)"
    using assms(1,2,3,4,6)
    by (simp add: bet_def Let_def findOne_def assms(5) toGame_def fi nth_datas [OF p(1)]
        tileIndex_unbound)
  then show ?thesis by (simp add: bet_persists_nothing errorResponse_def)
qed


text \<open>The hypotheses are satisfiable: cell 10 of the example session.\<close>

lemma example_not_revealed: "\<not> maskHas 248 10"
  by code_simp

theorem C10_bet_always_fails_witness:
  "bet exampleValidation 500 (exampleRequest\<lparr>rq_point := Some 10\<rparr>) exampleWorld
     = (errorResponse 500 ''tileIndex is not defined'', exampleWorld)"
proof -
  let ?req = "exampleRequest\<lparr>rq_point := Some 10\<rparr>"
  have n: "normalizeQubicPublicId exampleValidation
             (js_or (rq_publicId ?req) (rq_header_public_id ?req)) = ''ALICE''"
    by (simp add: exampleRequest_def exampleValidation_def js_or_def)
  have h: "isValidQubicPublicId exampleValidation
             (normalizeQubicPublicId exampleValidation
                (js_or (rq_publicId ?req) (rq_header_public_id ?req)))"
    "rq_point ?req = Some 10" "(0 :: int) \<le> 10" "(10 :: int) < 25"
    "find (matches (noFilters\<lparr>f_publicKey :=
             Some (normalizeQubicPublicId exampleValidation
                     (js_or (rq_publicId ?req) (rq_header_public_id ?req))),
             f_status := Some ''LIVE'', f_expiresAt_gt := Some 500\<rparr>)) (w_sessions exampleWorld)
       = Some exampleSession"
    "\<not> maskHas (ms_revealed_mask exampleSession) (nat 10)"
    by (simp_all add: exampleRequest_def js_or_def exampleValidation_def exampleWorld_def
        exampleSession_def matches_def noFilters_def example_not_revealed)
  from C10_bet_always_fails [OF h] show ?thesis by simp
qed

subsection \<open>Slide: a failed transfer\<close>

text \<open>
  Claim C9: in the Slide payout loop, a playing participant whose target is at most the
  crash point and whose transfer of the computed win amount fails is recorded with status
  \<^verbatim>\<open>lost\<close> and win amount 0. Nothing else of the player changes: no transaction id, and
  the player record has no field for a payout status or an error.
\<close>

theorem C9_slide_failed_transfer:
  assumes "sp_status player = ''playing''" and "sp_publicId player \<noteq> []"
    and "sp_target player \<le> crashPoint"
    and "winAmount = Math_floor (js_mul (sp_betAmount player) (sp_target player))"
    and "0 < winAmount"
    and "payFromCasinoToUser C (sp_publicId player) winAmount = Inl payoutError"
  shows "settlePlayer C crashPoint player
           = (player\<lparr>sp_status := ''lost'', sp_winAmount := Some 0\<rparr>,
              [(sp_publicId player, winAmount)])
       \<and> sp_payoutTxId (fst (settlePlayer C crashPoint player)) = sp_payoutTxId player
       \<and> (players ! i = player \<and> i < length players \<longrightarrow>
            fst (payoutLoop C crashPoint players) ! i
              = player\<lparr>sp_status := ''lost'', sp_winAmount := Some 0\<rparr>)"
proof -
  have s: "settlePlayer C crashPoint player
           = (player\<lparr>sp_status := ''lost'', sp_winAmount := Some 0\<rparr>,
              [(sp_publicId player, winAmount)])"
    using assms by (simp add: settlePlayer_def Let_def)
  then show ?thesis by (auto simp: payoutLoop_def Let_def)
qed

text \<open>The hypotheses are satisfiable: the example player and a failing casino.\<close>

lemma example_win: "Math_floor (js_mul (sp_betAmount exampleSlidePlayer) (sp_target exampleSlidePlayer)) = 200"
  using js_mul_exact [of 100 2] by (simp add: exampleSlidePlayer_def Math_floor_def)

theorem C9_slide_failed_transfer_witness:
  "settlePlayer failingCasino 3 exampleSlidePlayer
     = (exampleSlidePlayer\<lparr>sp_status := ''lost'', sp_winAmount := Some 0\<rparr>, [(''ALICE'', 200)])
   \<and> fst (payoutLoop failingCasino 3 [exampleSlidePlayer])
       = [exampleSlidePlayer\<lparr>sp_status := ''lost'', sp_winAmount := Some 0\<rparr>]"
proof -
  have h: "sp_status exampleSlidePlayer = ''playing''" "sp_publicId exampleSlidePlayer \<noteq> []"
    "sp_target exampleSlidePlayer \<le> 3"
    "200 = Math_floor (js_mul (sp_betAmount exampleSlidePlayer) (sp_target exampleSlidePlayer))"
    "(0 :: int) < 200"
    "payFromCasinoToUser failingCasino (sp_publicId exampleSlidePlayer) 200
       = Inl ''RPC broadcast error''"
    by (simp_all add: example_win)
       (simp_all add: exampleSlidePlayer_def payFromCasinoToUser_def failingCasino_def)
  from C9_slide_failed_transfer [OF h, of "[exampleSlidePlayer]" 0]
  show ?thesis by (simp add: payoutLoop_def exampleSlidePlayer_def)
qed

subsection \<open>Mines: cashout\<close>


















lemma example_hitBomb: "\<not> hitBomb (buildDatasFromMasks 7 248)"
  by code_simp










subsection \<open>Mines: claim\<close>

lemma claim_never_succeeds: "http (fst (claim V C req w)) \<noteq> 200"
  by (simp add: claim_def Let_def callTransferByName_def payUserFromCasino_unbound
      errorResponse_def split: option.splits)

lemma claim_no_transfer:
  "filter (\<lambda>e. case e of Transfer a b \<Rightarrow> True | _ \<Rightarrow> False) (w_log (snd (claim V C req w)))
     = filter (\<lambda>e. case e of Transfer a b \<Rightarrow> True | _ \<Rightarrow> False) (w_log w)"
  by (simp add: claim_def Let_def callTransferByName_def payUserFromCasino_unbound
      findByIdAndUpdate_def split: option.splits)

text \<open>
  Claim C8: every call of the claim operation that passes its checks (a session of the
  requester with payout status FAILED, no revealed mine, a positive recorded amount) fails
  at the transfer step: the name \<^verbatim>\<open>payUserFromCasino\<close> is bound nowhere in the module,
  the \<^verbatim>\<open>ReferenceError\<close> is caught, the payout status is FAILED again and the answer is
  502. No call of claim is ever answered with 200 and none invokes a transfer.
\<close>

theorem C8_claim_always_fails:
  assumes "requester = normalizeQubicPublicId V (js_or (rq_publicId req) (rq_header_public_id req))"
    and "isValidQubicPublicId V requester"
    and "find (matches (noFilters\<lparr>f_id := rq_gameId req, f_publicKey := Some requester,
                                  f_payoutStatus := Some ''FAILED''\<rparr>)) (w_sessions w) = Some row"
    and "ms_wallet_public_key row = requester"
    and "\<not> hitBomb (buildDatasFromMasks (ms_mines_mask row) (ms_revealed_mask row))"
    and "ms_payout_amount row = Some amount" and "0 < amount"
  shows "claim V C req w
           = ((errorResponse 502 ''Payout retry failed'')
                \<lparr>rs_details := Some ''payUserFromCasino is not defined''\<rparr>,
              \<lparr>w_sessions =
                 map (\<lambda>r. if ms_id r = ms_id row
                          then r\<lparr>ms_payout_status := ''FAILED'',
                                 ms_payout_error := Some ''payUserFromCasino is not defined''\<rparr>
                          else r) (w_sessions w),
               w_log = w_log w
                 @ [DbUpdate (ms_id row)
                      (noUpdates\<lparr>u_payoutStatus := Some ''PENDING'', u_payoutError := Some None\<rparr>),
                    DbUpdate (ms_id row)
                      (noUpdates\<lparr>u_payoutStatus := Some ''FAILED'',
                                 u_payoutError := Some (Some ''payUserFromCasino is not defined'')\<rparr>)]\<rparr>)
       \<and> map_of mine_module_bindings ''payUserFromCasino'' = None
       \<and> http (fst (claim V C' req' w')) \<noteq> 200
       \<and> filter (\<lambda>e. case e of Transfer a b \<Rightarrow> True | _ \<Rightarrow> False) (w_log (snd (claim V C' req' w')))
           = filter (\<lambda>e. case e of Transfer a b \<Rightarrow> True | _ \<Rightarrow> False) (w_log w')"
proof -
  have amt: "amount \<noteq> 0" "\<not> amount \<le> 0" using assms(7) by simp_all
  have "claim V C req w
           = ((errorResponse 502 ''Payout retry failed'')
                \<lparr>rs_details := Some ''payUserFromCasino is not defined''\<rparr>,
              \<lparr>w_sessions =
                 map (\<lambda>r. if ms_id r = ms_id row
                          then r\<lparr>ms_payout_status := ''FAILED'',
                                 ms_payout_error := Some ''payUserFromCasino is not defined''\<rparr>
                          else r) (w_sessions w),
               w_log = w_log w
                 @ [DbUpdate (ms_id row)
                      (noUpdates\<lparr>u_payoutStatus := Some ''PENDING'', u_payoutError := Some None\<rparr>),
                    DbUpdate (ms_id row)
                      (noUpdates\<lparr>u_payoutStatus := Some ''FAILED'',
                                 u_payoutError := Some (Some ''payUserFromCasino is not defined'')\<rparr>)]\<rparr>)"
    using assms(2,4,5,6) amt
    by (simp add: claim_def Let_def assms(1) [symmetric] findOne_def assms(3) toGame_def
        callTransferByName_def payUserFromCasino_unbound findByIdAndUpdate_def applyUpdates_def
        noUpdates_def errorText_def comp_def)
  then show ?thesis
    using claim_never_succeeds claim_no_transfer payUserFromCasino_unbound by simp
qed

text \<open>The hypotheses are satisfiable: the example session with a failed payout.\<close>

theorem C8_claim_always_fails_witness:
  "http (fst (claim exampleValidation payingCasino exampleRequest failedWorld)) = 502
   \<and> map ms_payout_status
        (w_sessions (snd (claim exampleValidation payingCasino exampleRequest failedWorld)))
       = [''FAILED'']
   \<and> map ms_payout_error
        (w_sessions (snd (claim exampleValidation payingCasino exampleRequest failedWorld)))
       = [Some ''payUserFromCasino is not defined'']"
proof -
  have h: "''ALICE'' = normalizeQubicPublicId exampleValidation
              (js_or (rq_publicId exampleRequest) (rq_header_public_id exampleRequest))"
    "isValidQubicPublicId exampleValidation ''ALICE''"
    "find (matches (noFilters\<lparr>f_id := rq_gameId exampleRequest, f_publicKey := Some ''ALICE'',
                                f_payoutStatus := Some ''FAILED''\<rparr>)) (w_sessions failedWorld)
       = Some failedSession"
    "ms_wallet_public_key failedSession = ''ALICE''"
    "\<not> hitBomb (buildDatasFromMasks (ms_mines_mask failedSession) (ms_revealed_mask failedSession))"
    "ms_payout_amount failedSession = Some 1967" "(0 :: int) < 1967"
    by (simp_all add: exampleRequest_def exampleValidation_def failedWorld_def failedSession_def
        exampleSession_def js_or_def matches_def noFilters_def example_hitBomb)
  from C8_claim_always_fails [OF h, of payingCasino]
  show ?thesis
    by (simp add: errorResponse_def failedWorld_def failedSession_def exampleSession_def)
qed


subsection \<open>Crash: automatic cashout\<close>











text \<open>A player created by the join handler is betting, without a win amount, with a target
  of at least 1.01.\<close>

lemma join_player_fresh:
  assumes "joinGame socketId wallet payload s = (JoinSuccess player, s')"
  shows "p_status player = Bet \<and> p_winAmount player = None \<and> fl (101 / 100) \<le> p_target player"
  using assms
  by (auto simp: joinGame_def Let_def split: option.splits if_splits)



lemma step_300: "js_div 300 100 = 3"
  using js_div_exact [of 100 300] by simp



lemma step_101: "fl (101 / 100) = 4548635623644201 / 4503599627370496"
  by code_simp








subsection \<open>Crash: joining with a used transaction id\<close>

lemma stub_crashPoint:
  "crashPointFromSeeds stubHmac publicSeed privateSeed = Inr (8962163258467287 / 4503599627370496)"
  by (simp add: crashPointFromSeeds_def crashPointFromDigest_def stubHmac_def step_crash100
      step_tail)

lemma example_join:
  assumes "st_currentGame s = Some g" and "cg_status g = Starting" and "cg_players g = []"
  shows "joinGame ''socket-ALICE'' ''ALICE'' (Some examplePayload) s
         = (JoinSuccess (crashPlayer ''ALICE'' ''tx-1'' 3),
            s\<lparr>st_currentGame := Some (g\<lparr>cg_players := [crashPlayer ''ALICE'' ''tx-1'' 3]\<rparr>)\<rparr>)"
  using assms
  by (simp add: joinGame_def examplePayload_def step_300 step_101 crashPlayer_def truthy_def
      Let_def)

text \<open>
  The join handler looks for the transaction id among the players of the current game
  only, and a new round starts with no players: in a round just created, a well-formed
  join is accepted whatever the earlier state was.
\<close>

lemma join_fresh_round:
  assumes "createNewRound hmac sha256Hex publicSeed privateSeed gameId s = Inr s'"
    and "jp_txId pl = Some txId" and "txId \<noteq> []"
    and "jp_target pl = Some t" and "\<not> js_div t 100 < fl (101 / 100)"
    and "jp_betAmount pl = Some b" and "0 < b" and "wallet \<noteq> []"
  shows "\<exists>player. fst (joinGame socketId wallet (Some pl) s') = JoinSuccess player
           \<and> p_txId player = txId \<and> p_publicId player = wallet"
  using assms
  by (auto simp: createNewRound_def joinGame_def Let_def split: sum.splits)


text \<open>
  Claim C5: a join is rejected when its transaction id was consumed by a prior round. The
  code does not do so: in the scenario of two rounds, the first join with \<open>tx-1\<close> is
  accepted, the first round ends over with that participant lost, and the join of the next
  round with the same \<open>tx-1\<close> is accepted again.
\<close>

theorem C5_replayed_token_is_accepted:
  "replayScenario
   = Some (JoinSuccess (crashPlayer ''ALICE'' ''tx-1'' 3),
           [(crashPlayer ''ALICE'' ''tx-1'' 3)\<lparr>p_status := Lost\<rparr>],
           Over,
           JoinSuccess (crashPlayer ''ALICE'' ''tx-1'' 3))"
proof -
  let ?p = "crashPlayer ''ALICE'' ''tx-1'' 3"
  let ?cp = "8962163258467287 / 4503599627370496 :: rat"
  let ?g1 = "\<lparr>cg_id = ''game-1'', cg_status = Starting, cg_crashPoint = Some 0,
              cg_publicSeed = ''c0de'', cg_privateSeed = ''5eed'', cg_privateHash = ''hash'',
              cg_players = []\<rparr>"
  let ?s1 = "initialCrashState\<lparr>st_crashPoint := ?cp, st_currentPayout := 1,
                               st_currentGame := Some ?g1\<rparr>"
  have c1: "createNewRound stubHmac (\<lambda>seed. ''hash'') ''c0de'' ''5eed'' ''game-1'' initialCrashState
            = Inr ?s1"
    by (simp add: createNewRound_def stub_crashPoint)
  let ?s2 = "?s1\<lparr>st_currentGame := Some (?g1\<lparr>cg_players := [?p]\<rparr>)\<rparr>"
  have j1: "joinGame ''socket-ALICE'' ''ALICE'' (Some examplePayload) ?s1 = (JoinSuccess ?p, ?s2)"
    by (rule example_join) simp_all
  let ?g3 = "?g1\<lparr>cg_status := Over, cg_crashPoint := Some ?cp,
                   cg_players := [?p\<lparr>p_status := Lost\<rparr>]\<rparr>"
  obtain s3 where s3: "s3 = runTicks payingCasino [2] (startRound ?s2)" by simp
  have g3: "st_currentGame s3 = Some ?g3"
    by (simp add: s3 startRound_def inProgress_def tick_def autoCashout_def endRound_def
        crashPlayer_def Let_def)
  obtain s4 where c2: "createNewRound stubHmac (\<lambda>seed. ''hash'') ''c0de'' ''5eed'' ''game-2'' s3
                       = Inr s4"
    and g4: "st_currentGame s4
             = Some \<lparr>cg_id = ''game-2'', cg_status = Starting, cg_crashPoint = Some 0,
                     cg_publicSeed = ''c0de'', cg_privateSeed = ''5eed'',
                     cg_privateHash = ''hash'', cg_players = []\<rparr>"
    by (simp add: createNewRound_def stub_crashPoint)
  have j2: "fst (joinGame ''socket-ALICE'' ''ALICE'' (Some examplePayload) s4) = JoinSuccess ?p"
    using example_join [OF g4] by simp
  show ?thesis
    by (simp only: replayScenario_def c1 sum.case j1 Let_def prod.case s3 [symmetric] c2 j2 g3
        playersOf_def option.case)
      simp
qed

end
